theory Spec2Isabelle
  imports Main "HOL-Library.Sublist" "HOL-Library.AList"
begin

section \<open>The trivia API of \<^verbatim>\<open>backend/flaskr/__init__.py\<close>\<close>

text \<open>
  The handlers of the Flask application are embedded as functions over an explicit
  record store. A handler returns either the exception it raises (\<open>Inl\<close>) or the
  payload it hands to \<^verbatim>\<open>jsonify\<close> (\<open>Inr\<close>); \<open>respond\<close> is Flask's dispatch of the
  exception to the registered error handlers. A handler that changes the store returns
  the new store as well.
\<close>

subsection \<open>Data model\<close>

text \<open>
  A Python string is a sequence of code points. \<open>py\<close> reads an ASCII literal as one.
\<close>

type_synonym pystr = "nat list"

definition py :: "string \<Rightarrow> pystr" where
  "py s = map of_char s"

text \<open>
  A JSON scalar as a category reference is posted: the tests post it both as a string
  (\<^verbatim>\<open>'category': '1'\<close>) and as a number (\<^verbatim>\<open>'id': 5\<close>).
\<close>

datatype jval = JInt int | JStr pystr

text \<open>
  Modelled from the spec: \<^verbatim>\<open>models.py\<close> is not among the sources. A question has an
  identifier, a question text, an answer text, a category reference and a difficulty. The
  category reference is kept in the store's native representation, an integer:
  \<^verbatim>\<open>play_quiz_test\<close> reads \<^verbatim>\<open>category\<close> back as the number 5.
\<close>

record question =
  q_id :: int
  q_question :: pystr
  q_answer :: pystr
  q_category :: int
  q_difficulty :: int

record category =
  c_id :: int
  c_type :: pystr

text \<open>
  The record store: the rows of both tables in store order, the identifier the next
  inserted question gets, and the case folding of the database's locale for the
  characters beyond ASCII.
\<close>

record store =
  store_questions :: "question list"
  store_categories :: "category list"
  store_next_id :: int
  store_lower :: "nat \<Rightarrow> nat"

text \<open>
  What a request carries, already parsed: the \<^verbatim>\<open>page\<close> query argument
  (\<open>None\<close> when it is absent or not a number), and the keys of the JSON body
  (\<open>None\<close> when the key is absent). \<open>json_quiz_category\<close> is the \<^verbatim>\<open>id\<close> of the
  posted category object. The body is a JSON object whose values have the types the
  handlers expect.
\<close>

record request =
  args_page :: "int option"
  json_question :: "pystr option"
  json_answer :: "pystr option"
  json_category :: "jval option"
  json_difficulty :: "int option"
  json_searchTerm :: "pystr option"
  json_quiz_category :: "jval option"
  json_previous_questions :: "int list option"

datatype exn =
    HTTPException nat
  | IndexError
  | KeyError
  | TypeError
  | UnboundLocalError
  | MultipleResultsFound
  | DataError

text \<open>
  The payloads of \<^verbatim>\<open>jsonify\<close>, one constructor for each handler's success result, and
  \<open>Error\<close> for the body the error handlers produce (\<^verbatim>\<open>success: False, error: code\<close>).
\<close>

datatype response =
    Categories "(int \<times> pystr) list"
  | Questions "question list" nat "(int \<times> pystr) list"
  | Deleted int
  | Created int "question list" nat
  | SearchResults "question list" nat
  | CategoryQuestions "question list" nat pystr
  | QuizQuestion question
  | GameOver
  | Error nat

datatype http_method = GET | POST | DELETE | PUT | PATCH

datatype url =
    Url_categories
  | Url_questions
  | Url_questions_id nat
  | Url_questions_search
  | Url_categories_id_questions nat
  | Url_quizzes

subsection \<open>The record store's operations\<close>

text \<open>
  Modelled from the spec: \<^verbatim>\<open>models.py\<close> (the classes \<^verbatim>\<open>Question\<close> and
  \<^verbatim>\<open>Category\<close>) is not among the sources. \<^verbatim>\<open>Question.format()\<close> yields the five
  fields of the data model, which is the record itself.
\<close>

definition format :: "question \<Rightarrow> question" where
  "format q = q"

text \<open>
  Modelled from the spec: \<^verbatim>\<open>getById(entityKind, id) -> record or absent\<close>, the
  store's lookup behind \<^verbatim>\<open>Question.query.get(id)\<close>.
\<close>

definition query_get :: "store \<Rightarrow> int \<Rightarrow> question option" where
  "query_get st i = find (\<lambda>q. q_id q = i) (store_questions st)"

text \<open>
  Modelled from the spec: \<^verbatim>\<open>delete(entityKind, id)\<close>, the store's removal behind
  \<^verbatim>\<open>question.delete()\<close>.
\<close>

definition question_delete :: "store \<Rightarrow> question \<Rightarrow> store" where
  "question_delete st q =
     st\<lparr>store_questions := filter (\<lambda>x. q_id x \<noteq> q_id q) (store_questions st)\<rparr>"

text \<open>
  Modelled from the spec: category references are compared in the store's native
  representation. A value that crosses the store's boundary as a category reference is
  converted to the integer of the column: a number is itself, and a string is the
  integer its decimal digits (after an optional minus sign) write. A string that writes
  no integer is refused by the store.
\<close>

definition digit_value :: "nat \<Rightarrow> nat option" where
  "digit_value c = (if 48 \<le> c \<and> c \<le> 57 then Some (c - 48) else None)"

fun digits_value :: "pystr \<Rightarrow> nat \<Rightarrow> nat option" where
  "digits_value [] acc = Some acc"
| "digits_value (c # cs) acc =
     (case digit_value c of
        None \<Rightarrow> None
      | Some d \<Rightarrow> digits_value cs (10 * acc + d))"

definition category_column :: "jval \<Rightarrow> int option" where
  "category_column v =
     (case v of
        JInt n \<Rightarrow> Some n
      | JStr s \<Rightarrow>
          (case s of
             [] \<Rightarrow> None
           | c # cs \<Rightarrow>
               if c = 45 then
                 (if cs = [] then None else map_option (\<lambda>n. - int n) (digits_value cs 0))
               else map_option int (digits_value s 0)))"

text \<open>
  Modelled from the spec: \<^verbatim>\<open>insert(record) -> assigned id\<close>, the store's insertion
  behind \<^verbatim>\<open>question.insert()\<close>; identifiers are never reused.
\<close>

definition question_insert ::
  "store \<Rightarrow> pystr \<Rightarrow> pystr \<Rightarrow> jval \<Rightarrow> int \<Rightarrow> exn + (store \<times> question)" where
  "question_insert st the_question the_answer the_category the_difficulty =
     (case category_column the_category of
        None \<Rightarrow> Inl DataError
      | Some cat \<Rightarrow>
          (let q = \<lparr>q_id = store_next_id st, q_question = the_question,
                     q_answer = the_answer, q_category = cat,
                     q_difficulty = the_difficulty\<rparr>
           in Inr (st\<lparr>store_questions := store_questions st @ [q],
                       store_next_id := store_next_id st + 1\<rparr>, q)))"

text \<open>
  Modelled from the spec: \<^verbatim>\<open>filter(entityKind, predicate)\<close> with the predicate
  \<^verbatim>\<open>category = v\<close>, the store's scan behind \<^verbatim>\<open>filter_by(category=v)\<close>.
\<close>

definition filter_by_category :: "store \<Rightarrow> jval \<Rightarrow> exn + question list" where
  "filter_by_category st v =
     (case category_column v of
        None \<Rightarrow> Inl DataError
      | Some cat \<Rightarrow> Inr (filter (\<lambda>q. q_category q = cat) (store_questions st)))"

text \<open>
  \<^verbatim>\<open>Category.query.filter_by(id=id).one_or_none()\<close>: the row, nothing, or the
  exception for more than one row (by the data model the identifier is unique).
\<close>

definition category_one_or_none :: "store \<Rightarrow> int \<Rightarrow> exn + category option" where
  "category_one_or_none st i =
     (case filter (\<lambda>c. c_id c = i) (store_categories st) of
        [] \<Rightarrow> Inr None
      | [c] \<Rightarrow> Inr (Some c)
      | _ \<Rightarrow> Inl MultipleResultsFound)"

subsection \<open>The SQL operator behind \<^verbatim>\<open>ilike\<close>\<close>

text \<open>
  \<^verbatim>\<open>Question.question.ilike(pattern)\<close> is SQL's \<^verbatim>\<open>ILIKE\<close>, evaluated by the database
  and not by code of the repository; it is embedded with the meaning SQL gives it. In a
  LIKE pattern \<open>%\<close> (code point 37) stands for any run of characters, \<open>_\<close> (95) for any
  one character, and a backslash (92) makes the character after it literal;
  \<^verbatim>\<open>ILIKE\<close> is the same match on the lowered pattern and text. Lowering maps the letters
  A to Z to a to z, leaves the other ASCII characters, and maps a character beyond ASCII
  as the locale of the database says (\<open>store_lower\<close>).
\<close>

definition lower_char :: "store \<Rightarrow> nat \<Rightarrow> nat" where
  "lower_char st c =
     (if 65 \<le> c \<and> c \<le> 90 then c + 32 else if c < 128 then c else store_lower st c)"

definition lower :: "store \<Rightarrow> pystr \<Rightarrow> pystr" where
  "lower st s = map (lower_char st) s"

fun like_match :: "pystr \<Rightarrow> pystr \<Rightarrow> bool" where
  "like_match [] s = (s = [])"
| "like_match (p # ps) [] = (p = 37 \<and> like_match ps [])"
| "like_match (p # ps) (c # cs) =
     (if p = 37 then like_match ps (c # cs) \<or> like_match (p # ps) cs
      else if p = 95 then like_match ps cs
      else if p = 92 then
        (case ps of [] \<Rightarrow> False | e # ps' \<Rightarrow> e = c \<and> like_match ps' cs)
      else p = c \<and> like_match ps cs)"

definition ilike :: "store \<Rightarrow> pystr \<Rightarrow> pystr \<Rightarrow> bool" where
  "ilike st pattern s = like_match (lower st pattern) (lower st s)"

text \<open>The characters a LIKE pattern gives a meaning of their own.\<close>

definition like_special :: "nat \<Rightarrow> bool" where
  "like_special c = (c = 37 \<or> c = 95 \<or> c = 92)"

definition like_plain :: "pystr \<Rightarrow> bool" where
  "like_plain t = list_all (\<lambda>c. \<not> like_special c) t"

subsection \<open>Python's primitives\<close>

text \<open>\<^verbatim>\<open>xs[start:stop]\<close> for integer bounds: a negative bound counts from the end.\<close>

definition py_slice :: "'a list \<Rightarrow> int \<Rightarrow> int \<Rightarrow> 'a list" where
  "py_slice xs start stop =
     (let n = int (length xs);
          s = (if start < 0 then max (start + n) 0 else min start n);
          e = (if stop < 0 then max (stop + n) 0 else min stop n)
      in take (nat (e - s)) (drop (nat s) xs))"

text \<open>
  \<^verbatim>\<open>random.choice(xs)\<close> with the draw \<open>r\<close> made explicit: \<^verbatim>\<open>IndexError\<close> on the
  empty list, otherwise the element the draw selects.
\<close>

definition random_choice :: "nat \<Rightarrow> 'a list \<Rightarrow> exn + 'a" where
  "random_choice r xs = (if xs = [] then Inl IndexError else Inr (xs ! (r mod length xs)))"

text \<open>\<^verbatim>\<open>str(n)\<close> for the non-negative integer a \<^verbatim>\<open><int:id>\<close> route yields.\<close>

function py_str :: "nat \<Rightarrow> pystr" where
  "py_str n = (if n < 10 then [48 + n] else py_str (n div 10) @ [48 + n mod 10])"
  by pat_completeness auto
termination
  by (relation "measure (\<lambda>n. n)") auto

declare py_str.simps [simp del]

subsection \<open>Pagination\<close>

definition QUESTIONS_PER_PAGE :: int where
  "QUESTIONS_PER_PAGE = 10"

text \<open>\<^verbatim>\<open>request.args.get('page', 1, type=int)\<close>\<close>

definition args_get_page :: "request \<Rightarrow> int" where
  "args_get_page request = (case args_page request of None \<Rightarrow> 1 | Some p \<Rightarrow> p)"

definition paginate :: "request \<Rightarrow> question list \<Rightarrow> question list" where
  "paginate request selections =
     (let page = args_get_page request;
          start = (page - 1) * QUESTIONS_PER_PAGE;
          stop = start + QUESTIONS_PER_PAGE;
          questions = map format selections;
          current_questions = py_slice questions start stop
      in current_questions)"

subsection \<open>The handlers\<close>

definition categories_dict :: "category list \<Rightarrow> (int \<times> pystr) list" where
  "categories_dict all_categories =
     foldl (\<lambda>d c. AList.update (c_id c) (c_type c) d) [] all_categories"

definition show_categories :: "store \<Rightarrow> exn + response" where
  "show_categories st =
     (let all_categories = store_categories st in
      if length all_categories = 0 then Inl (HTTPException 404)
      else Inr (Categories (categories_dict all_categories)))"

definition show_questions :: "store \<Rightarrow> request \<Rightarrow> exn + response" where
  "show_questions st request =
     (let all_questions = store_questions st;
          total_questions = length all_questions;
          paginated_questions = paginate request all_questions
      in if length paginated_questions = 0 then Inl (HTTPException 404)
         else Inr (Questions paginated_questions total_questions
                     (categories_dict (store_categories st))))"

text \<open>The body of the \<^verbatim>\<open>try\<close> block of \<^verbatim>\<open>delete_question\<close>.\<close>

definition delete_question_try :: "store \<Rightarrow> int \<Rightarrow> exn + (store \<times> response)" where
  "delete_question_try st i =
     (case query_get st i of
        None \<Rightarrow> Inl (HTTPException 404)
      | Some question \<Rightarrow> Inr (question_delete st question, Deleted i))"

text \<open>
  The bare \<^verbatim>\<open>except:\<close> catches every exception of the block, the one \<^verbatim>\<open>abort(404)\<close>
  raises included, and aborts with 422.
\<close>

definition delete_question :: "store \<Rightarrow> int \<Rightarrow> store \<times> (exn + response)" where
  "delete_question st i =
     (case delete_question_try st i of
        Inl e \<Rightarrow> (st, Inl (HTTPException 422))
      | Inr (st', r) \<Rightarrow> (st', Inr r))"

text \<open>
  The four keys are read in turn, each raising \<^verbatim>\<open>KeyError\<close> when absent; an exception
  of the insertion is not caught either.
\<close>

definition create_question :: "store \<Rightarrow> request \<Rightarrow> store \<times> (exn + response)" where
  "create_question st request =
     (case json_question request of None \<Rightarrow> (st, Inl KeyError) | Some the_question \<Rightarrow>
     (case json_answer request of None \<Rightarrow> (st, Inl KeyError) | Some the_answer \<Rightarrow>
     (case json_category request of None \<Rightarrow> (st, Inl KeyError) | Some the_category \<Rightarrow>
     (case json_difficulty request of None \<Rightarrow> (st, Inl KeyError) | Some the_difficulty \<Rightarrow>
        (case question_insert st the_question the_answer the_category the_difficulty of
           Inl e \<Rightarrow> (st, Inl e)
         | Inr (st', question) \<Rightarrow>
             (let all_questions = store_questions st';
                  paginated_questions = paginate request all_questions
              in (st', Inr (Created (q_id question) paginated_questions
                             (length all_questions)))))))))"

text \<open>
  \<^verbatim>\<open>search_term\<close> is bound only when the posted term is truthy; reading it unbound
  raises. The pattern is \<^verbatim>\<open>'%{}%'.format(search_term)\<close>.
\<close>

definition search_questions :: "store \<Rightarrow> request \<Rightarrow> exn + response" where
  "search_questions st request =
     (case json_searchTerm request of
        None \<Rightarrow> Inl UnboundLocalError
      | Some search_term \<Rightarrow>
          if search_term = [] then Inl UnboundLocalError
          else
            (let questions =
                   filter (\<lambda>q. ilike st (py ''%'' @ search_term @ py ''%'') (q_question q))
                     (store_questions st)
             in if questions = [] then Inl (HTTPException 404)
                else Inr (SearchResults (paginate request questions) (length questions))))"

definition show_questions_by_category :: "store \<Rightarrow> request \<Rightarrow> nat \<Rightarrow> exn + response" where
  "show_questions_by_category st request i =
     (case category_one_or_none st (int i) of
        Inl e \<Rightarrow> Inl e
      | Inr None \<Rightarrow> Inl (HTTPException 404)
      | Inr (Some category) \<Rightarrow>
          (case filter_by_category st (JStr (py_str i)) of
             Inl e \<Rightarrow> Inl e
           | Inr all_questions \<Rightarrow>
               (let paginated_questions = paginate request all_questions
                in Inr (CategoryQuestions paginated_questions (length all_questions)
                          (c_type category)))))"

text \<open>
  The \<^verbatim>\<open>while is_question_old\<close> loop of \<^verbatim>\<open>get_quiz_question\<close>. \<open>rnd k\<close> is the
  \<open>k\<close>-th draw of the random generator. The loop may run forever, so the result is an
  option: \<open>None\<close> is a call that never returns.
\<close>

partial_function (option) quiz_loop ::
  "(nat \<Rightarrow> nat) \<Rightarrow> question list \<Rightarrow> int list \<Rightarrow> nat \<Rightarrow> bool \<Rightarrow> question
     \<Rightarrow> (exn + response) option" where
  "quiz_loop rnd questions previous_questions k is_question_old next_question =
     (if is_question_old then
        (case random_choice (rnd k) questions of
           Inl e \<Rightarrow> Some (Inl e)
         | Inr q \<Rightarrow>
             if length previous_questions = length questions then Some (Inr GameOver)
             else quiz_loop rnd questions previous_questions (Suc k) is_question_old
                    (format q))
      else Some (Inr (QuizQuestion next_question)))"

declare quiz_loop.simps [code]

text \<open>The candidate set: every question for the category id 0, the category's otherwise.\<close>

definition quiz_candidates :: "store \<Rightarrow> jval \<Rightarrow> exn + question list" where
  "quiz_candidates st cid =
     (if cid = JInt 0 then Inr (store_questions st) else filter_by_category st cid)"

definition get_quiz_question ::
  "(nat \<Rightarrow> nat) \<Rightarrow> store \<Rightarrow> request \<Rightarrow> (exn + response) option" where
  "get_quiz_question rnd st request =
     (case json_quiz_category request of
        None \<Rightarrow> Some (Inl TypeError)
      | Some cid \<Rightarrow>
          (case quiz_candidates st cid of
             Inl e \<Rightarrow> Some (Inl e)
           | Inr questions \<Rightarrow>
               (case random_choice (rnd 0) questions of
                  Inl e \<Rightarrow> Some (Inl e)
                | Inr q \<Rightarrow>
                    (case json_previous_questions request of
                       None \<Rightarrow> Some (Inl TypeError)
                     | Some previous_questions \<Rightarrow>
                         quiz_loop rnd questions previous_questions 1
                           (q_id (format q) \<in> set previous_questions) (format q)))))"

subsection \<open>Routing and error handlers\<close>

text \<open>
  An \<^verbatim>\<open>abort(code)\<close> reaches the error handler of its code; any other exception is an
  internal server error.
\<close>

definition respond :: "exn + response \<Rightarrow> response" where
  "respond r =
     (case r of
        Inr payload \<Rightarrow> payload
      | Inl (HTTPException code) \<Rightarrow> Error code
      | Inl _ \<Rightarrow> Error 500)"

text \<open>
  The routes as \<^verbatim>\<open>@app.route\<close> registers them, each with its list of methods (GET when
  none is given); a method the route does not list is answered 405. The methods HEAD and
  OPTIONS, which Flask adds to a route by itself, are not among the methods of the model.
\<close>

definition app ::
  "(nat \<Rightarrow> nat) \<Rightarrow> store \<Rightarrow> http_method \<Rightarrow> url \<Rightarrow> request \<Rightarrow> (store \<times> response) option" where
  "app rnd st m u request =
     (case u of
        Url_categories \<Rightarrow>
          if m = GET then Some (st, respond (show_categories st)) else Some (st, Error 405)
      | Url_questions \<Rightarrow>
          if m = GET then Some (st, respond (show_questions st request))
          else if m = POST then
            (let (st', r) = create_question st request in Some (st', respond r))
          else Some (st, Error 405)
      | Url_questions_id i \<Rightarrow>
          if m \<in> set [GET, DELETE] then
            (let (st', r) = delete_question st (int i) in Some (st', respond r))
          else Some (st, Error 405)
      | Url_questions_search \<Rightarrow>
          if m \<in> set [GET, POST] then Some (st, respond (search_questions st request))
          else Some (st, Error 405)
      | Url_categories_id_questions i \<Rightarrow>
          if m = GET then Some (st, respond (show_questions_by_category st request i))
          else Some (st, Error 405)
      | Url_quizzes \<Rightarrow>
          if m = POST then
            (case get_quiz_question rnd st request of
               None \<Rightarrow> None
             | Some r \<Rightarrow> Some (st, respond r))
          else Some (st, Error 405))"

subsection \<open>Sample stores and requests\<close>

text \<open>The data of the scenarios the properties are tried on.\<close>

definition mk_question :: "int \<Rightarrow> string \<Rightarrow> int \<Rightarrow> question" where
  "mk_question i text cat =
     \<lparr>q_id = i, q_question = py text, q_answer = py ''answer'', q_category = cat,
      q_difficulty = 1\<rparr>"

definition empty_request :: request where
  "empty_request =
     \<lparr>args_page = None, json_question = None, json_answer = None, json_category = None,
      json_difficulty = None, json_searchTerm = None, json_quiz_category = None,
      json_previous_questions = None\<rparr>"

definition page_request :: "int \<Rightarrow> request" where
  "page_request p = empty_request\<lparr>args_page := Some p\<rparr>"

definition quiz_request :: "jval \<Rightarrow> int list \<Rightarrow> request" where
  "quiz_request cid previous_questions =
     empty_request\<lparr>json_quiz_category := Some cid,
                     json_previous_questions := Some previous_questions\<rparr>"


text \<open>
  The creation request of \<^verbatim>\<open>create_question_test\<close> with the \<^verbatim>\<open>answer\<close> key left
  out.
\<close>

definition create_request_no_answer :: request where
  "create_request_no_answer =
     empty_request\<lparr>json_question := Some (py ''How many US States are there?''),
                     json_category := Some (JStr (py ''1'')),
                     json_difficulty := Some 1\<rparr>"

text \<open>
  A case folding for the characters beyond ASCII: the capital letters of Latin-1 (192 to
  222, but for the multiplication sign 215) go to their small letters.
\<close>

definition latin1_lower :: "nat \<Rightarrow> nat" where
  "latin1_lower c = (if 192 \<le> c \<and> c \<le> 222 \<and> c \<noteq> 215 then c + 32 else c)"

text \<open>
  The store of \<^verbatim>\<open>play_quiz_test\<close>: category 5 holds the questions 2, 3 and 6, and
  category 4 holds none.
\<close>

definition entertainment :: store where
  "entertainment =
     \<lparr>store_questions =
        [mk_question 2 ''Who directed the film?'' 5,
         mk_question 3 ''What is the title of the film?'' 5,
         mk_question 6 ''Which actor played the lead?'' 5],
      store_categories = [\<lparr>c_id = 4, c_type = py ''History''\<rparr>,
                          \<lparr>c_id = 5, c_type = py ''Entertainment''\<rparr>],
      store_next_id = 7,
      store_lower = latin1_lower\<rparr>"

text \<open>
  The store of the spec's category scenario: the categories 1 (Science) and 2 (Art), and
  three questions that refer to them.
\<close>

definition science_art :: store where
  "science_art =
     \<lparr>store_questions =
        [mk_question 1 ''What is the heaviest organ?'' 1,
         mk_question 2 ''Who painted La Giaconda?'' 2,
         mk_question 3 ''What is the boiling point?'' 1],
      store_categories = [\<lparr>c_id = 1, c_type = py ''Science''\<rparr>,
                          \<lparr>c_id = 2, c_type = py ''Art''\<rparr>],
      store_next_id = 4,
      store_lower = latin1_lower\<rparr>"

text \<open>Twelve questions, and a store of eleven whose text holds the word \<open>title\<close>.\<close>

definition twelve :: "question list" where
  "twelve = map (\<lambda>i. mk_question i ''What is the Title?'' 1)
              [1, 2, 3, 4, 5, 6, 7, 8, 9, 10, 11, 12]"




section \<open>Properties\<close>

subsection \<open>Pagination\<close>

lemma py_slice_nonneg:
  "0 \<le> start \<Longrightarrow> start \<le> stop \<Longrightarrow>
   py_slice xs start stop = take (nat (stop - start)) (drop (nat start) xs)"
  unfolding py_slice_def Let_def
  by (auto simp: min_def max_def not_le)

lemma paginate_window:
  assumes "args_get_page request = p" "1 \<le> p"
  shows "paginate request items = take 10 (drop (10 * nat (p - 1)) (map format items))"
proof -
  define n where "n = nat (p - 1)"
  have p: "p = int n + 1" using assms(2) by (simp add: n_def)
  have s: "nat (int n * 10) = 10 * n"
    by (simp add: nat_mult_distrib)
  have "paginate request items = py_slice (map format items) (int n * 10) (int n * 10 + 10)"
    using assms(1) by (simp add: paginate_def Let_def QUESTIONS_PER_PAGE_def p)
  also have "\<dots> = take (nat ((int n * 10 + 10) - int n * 10))
                      (drop (nat (int n * 10)) (map format items))"
    by (rule py_slice_nonneg) simp_all
  also have "\<dots> = take 10 (drop (10 * n) (map format items))"
    by (simp only: s) simp
  finally show ?thesis by (simp only: n_def)
qed

lemma set_py_slice: "set (py_slice xs a b) \<subseteq> set xs"
  unfolding py_slice_def Let_def
  by (meson set_take_subset set_drop_subset subset_trans)

lemma set_paginate: "set (paginate request selections) \<subseteq> set selections"
  using set_py_slice [of "map format selections"]
  by (simp add: paginate_def Let_def format_def)

text \<open>
  Claim C7 (pagination bounds). For a list of \<open>N\<close> items and a page number \<open>p \<ge> 1\<close>,
  \<open>paginate\<close> returns the window of ten items that starts at index \<open>10 * (p - 1)\<close>; it has
  \<open>min 10 (max 0 (N - 10 * (p - 1)))\<close> items, and it is empty exactly when
  \<open>10 * (p - 1) \<ge> N\<close>. The function has no error result.
\<close>

theorem paginate_bounds:
  assumes "args_get_page request = p" and "1 \<le> p"
  shows "paginate request items = take 10 (drop (10 * nat (p - 1)) (map format items))
    \<and> int (length (paginate request items))
        = min 10 (max 0 (int (length items) - 10 * (p - 1)))
    \<and> (if int (length items) \<le> 10 * (p - 1) then paginate request items = []
        else paginate request items \<noteq> [])"
proof -
  note w = paginate_window [OF assms]
  define n where "n = nat (p - 1)"
  have p: "p = int n + 1" using assms(2) by (simp add: n_def)
  have len: "length (paginate request items) = min 10 (length items - 10 * n)"
    by (simp add: w n_def)
  have l: "int (length (paginate request items))
             = min 10 (max 0 (int (length items) - 10 * (p - 1)))"
    unfolding len p by (simp add: min_def max_def) arith
  have e: "if int (length items) \<le> 10 * (p - 1) then paginate request items = []
           else paginate request items \<noteq> []"
  proof (cases "int (length items) \<le> 10 * (p - 1)")
    case True
    then have "length items \<le> 10 * n" by (simp add: p)
    then have "length (paginate request items) = 0" by (simp add: len)
    with True show ?thesis by simp
  next
    case False
    then have "10 * n < length items" by (simp add: p)
    then have "length (paginate request items) \<noteq> 0" by (simp add: len)
    with False show ?thesis by auto
  qed
  show ?thesis using w l e by simp
qed

text \<open>The spec's scenario: of twelve items, page 2 holds the items 11 and 12; page 3 is empty.\<close>

theorem paginate_bounds_witness:
  "args_get_page (page_request 2) = 2 \<and> (1::int) \<le> 2
   \<and> paginate (page_request 2) twelve
       = [mk_question 11 ''What is the Title?'' 1, mk_question 12 ''What is the Title?'' 1]
   \<and> int (length (paginate (page_request 2) twelve))
       = min 10 (max 0 (int (length twelve) - 10 * (2 - 1)))
   \<and> paginate (page_request 3) twelve = []"
proof -
  have h: "args_get_page (page_request 2) = 2"
    by (simp add: args_get_page_def page_request_def)
  have h3: "args_get_page (page_request 3) = 3"
    by (simp add: args_get_page_def page_request_def)
  have l: "length twelve = 12" by (simp add: twelve_def)
  have d: "map format twelve = twelve" by (rule map_idI) (simp add: format_def)
  have v: "take 10 (drop 10 twelve)
             = [mk_question 11 ''What is the Title?'' 1,
                mk_question 12 ''What is the Title?'' 1]"
    by (simp add: twelve_def)
  from paginate_bounds [OF h, of twelve] paginate_bounds [OF h3, of twelve] h l d v
  show ?thesis by simp
qed

subsection \<open>The quiz selector\<close>

text \<open>
  What the loop can return. \<open>is_question_old\<close> is never assigned in the loop, so a loop
  that is entered leaves only through the comparison of the two lengths.
\<close>

lemma quiz_loop_question_aux:
  assumes "quiz_loop rnd questions previous_questions k is_question_old next_question = Some y"
  shows "\<forall>q. y = Inr (QuizQuestion q) \<longrightarrow> \<not> is_question_old \<and> q = next_question"
  using assms
proof (induction rnd questions previous_questions k is_question_old next_question y
    rule: quiz_loop.raw_induct [rotated 1, consumes 1])
  case (1 f rnd questions previous_questions k is_question_old next_question y)
  note body = "1.hyps" and IH = "1.IH"
  show ?case
  proof (cases is_question_old)
    case False
    with body show ?thesis by auto
  next
    case True
    show ?thesis
    proof (cases "random_choice (rnd k) questions")
      case (Inl e)
      with True body show ?thesis by auto
    next
      case (Inr c)
      show ?thesis
      proof (cases "length previous_questions = length questions")
        case True
        with \<open>is_question_old\<close> Inr body show ?thesis by auto
      next
        case False
        with True Inr body
        have "f rnd questions previous_questions (Suc k) is_question_old (format c) = Some y"
          by simp
        from IH [OF this] True show ?thesis by simp
      qed
    qed
  qed
qed

lemma quiz_loop_question:
  assumes "quiz_loop rnd questions previous_questions k is_question_old next_question
             = Some (Inr (QuizQuestion q))"
  shows "\<not> is_question_old \<and> q = next_question"
  using quiz_loop_question_aux [OF assms] by simp

lemma quiz_loop_returns:
  assumes "quiz_loop rnd questions previous_questions k is_question_old next_question = Some y"
  shows "\<not> is_question_old \<or> questions = []
         \<or> length previous_questions = length questions"
  using assms
proof (induction rnd questions previous_questions k is_question_old next_question y
    rule: quiz_loop.raw_induct [rotated 1, consumes 1])
  case (1 f rnd questions previous_questions k is_question_old next_question y)
  note body = "1.hyps" and IH = "1.IH"
  show ?case
  proof (rule ccontr)
    assume "\<not> ?thesis"
    then have c: "is_question_old" "questions \<noteq> []"
      "length previous_questions \<noteq> length questions"
      by simp_all
    with body have "f rnd questions previous_questions (Suc k) is_question_old
        (format (questions ! (rnd k mod length questions))) = Some y"
      by (simp add: random_choice_def)
    from IH [OF this] c show False by simp
  qed
qed

lemma quiz_loop_diverges:
  assumes "is_question_old" "questions \<noteq> []"
    "length previous_questions \<noteq> length questions"
  shows "quiz_loop rnd questions previous_questions k is_question_old next_question = None"
proof (cases "quiz_loop rnd questions previous_questions k is_question_old next_question")
  case None
  then show ?thesis .
next
  case (Some y)
  from quiz_loop_returns [OF Some] assms show ?thesis by simp
qed

lemma quiz_loop_game_over:
  "is_question_old \<Longrightarrow> questions \<noteq> [] \<Longrightarrow>
   length previous_questions = length questions \<Longrightarrow>
   quiz_loop rnd questions previous_questions k is_question_old next_question
     = Some (Inr GameOver)"
  by (subst quiz_loop.simps) (simp add: random_choice_def)

lemma random_choice_mem: "random_choice r xs = Inr x \<Longrightarrow> x \<in> set xs"
  by (auto simp: random_choice_def split: if_splits)

lemma get_quiz_question_payload:
  assumes "get_quiz_question rnd st request = Some (Inr (QuizQuestion q))"
  shows "\<exists>cid questions previous_questions.
           json_quiz_category request = Some cid
         \<and> quiz_candidates st cid = Inr questions
         \<and> json_previous_questions request = Some previous_questions
         \<and> q_id q \<notin> set previous_questions
         \<and> q \<in> set questions"
proof -
  from assms obtain cid where c: "json_quiz_category request = Some cid"
    by (auto simp: get_quiz_question_def split: option.splits)
  from assms c obtain qs where qs: "quiz_candidates st cid = Inr qs"
    by (auto simp: get_quiz_question_def split: sum.splits)
  from assms c qs obtain q0 where q0: "random_choice (rnd 0) qs = Inr q0"
    by (auto simp: get_quiz_question_def split: sum.splits)
  from assms c qs q0 obtain prev where p: "json_previous_questions request = Some prev"
    by (auto simp: get_quiz_question_def split: option.splits)
  from assms c qs q0 p have l: "quiz_loop rnd qs prev 1
      (q_id (format q0) \<in> set prev) (format q0) = Some (Inr (QuizQuestion q))"
    by (simp add: get_quiz_question_def)
  from quiz_loop_question [OF l] have "q_id (format q0) \<notin> set prev" "q = format q0"
    by simp_all
  with random_choice_mem [OF q0] c qs p show ?thesis by (simp add: format_def)
qed

text \<open>
  Claim C1 (quiz totality). The claim asks that a call with an unseen candidate left
  always returns a question. On the store of \<^verbatim>\<open>play_quiz_test\<close> (category 5 holds the
  questions 2, 3 and 6) with \<^verbatim>\<open>previous_questions = [2, 6]\<close>, the call whose first
  draw selects question 2 never returns: the loop is entered, the lengths 2 and 3 differ,
  and \<open>is_question_old\<close> stays true. The call whose first draw selects question 3 returns
  it.
\<close>

theorem quiz_totality_fails:
  "get_quiz_question (\<lambda>_. 0) entertainment (quiz_request (JInt 5) [2, 6]) = None
   \<and> get_quiz_question (\<lambda>_. 1) entertainment (quiz_request (JInt 5) [2, 6])
       = Some (Inr (QuizQuestion (mk_question 3 ''What is the title of the film?'' 5)))"
proof -
  have c: "quiz_candidates entertainment (JInt 5) = Inr (store_questions entertainment)"
    by (simp add: quiz_candidates_def filter_by_category_def category_column_def
        entertainment_def mk_question_def)
  have r: "random_choice 0 (store_questions entertainment)
      = Inr (mk_question 2 ''Who directed the film?'' 5)"
    by (simp add: random_choice_def entertainment_def)
  have d: "quiz_loop (\<lambda>_. 0) (store_questions entertainment) [2, 6] 1 True
      (mk_question 2 ''Who directed the film?'' 5) = None"
    by (rule quiz_loop_diverges) (simp_all add: entertainment_def)
  have "get_quiz_question (\<lambda>_. 0) entertainment (quiz_request (JInt 5) [2, 6]) = None"
    using d by (simp add: get_quiz_question_def quiz_request_def empty_request_def c r
        format_def mk_question_def)
  moreover have "get_quiz_question (\<lambda>_. 1) entertainment (quiz_request (JInt 5) [2, 6])
       = Some (Inr (QuizQuestion (mk_question 3 ''What is the title of the film?'' 5)))"
    by code_simp
  ultimately show ?thesis by simp
qed

text \<open>
  Claim C2 (quiz no-repeat invariant). Whenever the call returns a question payload, the
  identifier of the returned question is not among the previously served identifiers of
  the request.
\<close>

theorem quiz_no_repeat:
  assumes "get_quiz_question rnd st request = Some (Inr (QuizQuestion q))"
    and "json_previous_questions request = Some previous_questions"
  shows "q_id q \<notin> set previous_questions"
  using get_quiz_question_payload [OF assms(1)] assms(2) by auto

theorem quiz_no_repeat_witness:
  "get_quiz_question (\<lambda>_. 1) entertainment (quiz_request (JInt 5) [2, 6])
     = Some (Inr (QuizQuestion (mk_question 3 ''What is the title of the film?'' 5)))
   \<and> json_previous_questions (quiz_request (JInt 5) [2, 6]) = Some [2, 6]
   \<and> q_id (mk_question 3 ''What is the title of the film?'' 5) \<notin> set [2, 6]"
proof -
  have h: "get_quiz_question (\<lambda>_. 1) entertainment (quiz_request (JInt 5) [2, 6])
     = Some (Inr (QuizQuestion (mk_question 3 ''What is the title of the film?'' 5)))"
    by code_simp
  have p: "json_previous_questions (quiz_request (JInt 5) [2, 6]) = Some [2, 6]"
    by (simp add: quiz_request_def)
  from quiz_no_repeat [OF h p] h p show ?thesis by simp
qed

text \<open>
  Claim C3 (quiz exhaustion), as the code has it. The comparison of the two lengths
  stands inside the retry loop, after the first draw: a call whose first draw is unseen
  returns that question whatever the lengths are. With two previously served identifiers
  that are not in the category and two candidates, the call returns a question.
\<close>

theorem quiz_exhaustion_counterexample:
  "quiz_candidates science_art (JStr (py ''1''))
     = Inr [mk_question 1 ''What is the heaviest organ?'' 1,
            mk_question 3 ''What is the boiling point?'' 1]
   \<and> length [7, 8 :: int]
       = length [mk_question 1 ''What is the heaviest organ?'' 1,
                 mk_question 3 ''What is the boiling point?'' 1]
   \<and> get_quiz_question (\<lambda>_. 0) science_art (quiz_request (JStr (py ''1'')) [7, 8])
       = Some (Inr (QuizQuestion (mk_question 1 ''What is the heaviest organ?'' 1)))"
  by code_simp

text \<open>
  Claim C3, amended. When the candidate set is not empty, every candidate has been
  served, and the number of previously served identifiers equals the size of the
  candidate set, the call returns the game-over result (success, no question payload),
  whatever the draws are.
\<close>

theorem quiz_exhausted:
  assumes "json_quiz_category request = Some cid"
    and "json_previous_questions request = Some previous_questions"
    and "quiz_candidates st cid = Inr questions"
    and "questions \<noteq> []"
    and "q_id ` set questions \<subseteq> set previous_questions"
    and "length previous_questions = length questions"
  shows "get_quiz_question rnd st request = Some (Inr GameOver)"
proof -
  obtain q0 where q0: "random_choice (rnd 0) questions = Inr q0"
    using assms(4) by (simp add: random_choice_def)
  from random_choice_mem [OF q0] assms(5)
  have old: "q_id (format q0) \<in> set previous_questions"
    by (auto simp: format_def)
  show ?thesis
    using assms(1,2,3) q0 quiz_loop_game_over [OF old assms(4,6)]
    by (simp add: get_quiz_question_def)
qed

text \<open>The spec's scenario: the pool is 1, 2, 3 and all three have been served.\<close>

theorem quiz_exhausted_witness:
  "json_quiz_category (quiz_request (JInt 0) [1, 2, 3]) = Some (JInt 0)
   \<and> json_previous_questions (quiz_request (JInt 0) [1, 2, 3]) = Some [1, 2, 3]
   \<and> quiz_candidates science_art (JInt 0) = Inr (store_questions science_art)
   \<and> store_questions science_art \<noteq> []
   \<and> q_id ` set (store_questions science_art) \<subseteq> set [1, 2, 3]
   \<and> length [1, 2, 3 :: int] = length (store_questions science_art)
   \<and> get_quiz_question (\<lambda>_. 2) science_art (quiz_request (JInt 0) [1, 2, 3])
        = Some (Inr GameOver)"
proof -
  have h1: "json_quiz_category (quiz_request (JInt 0) [1, 2, 3]) = Some (JInt 0)"
    and h2: "json_previous_questions (quiz_request (JInt 0) [1, 2, 3]) = Some [1, 2, 3]"
    by (simp_all add: quiz_request_def)
  have h3: "quiz_candidates science_art (JInt 0) = Inr (store_questions science_art)"
    by (simp add: quiz_candidates_def)
  have h4: "store_questions science_art \<noteq> []"
    by (simp add: science_art_def)
  have h5: "q_id ` set (store_questions science_art) \<subseteq> set [1, 2, 3]"
    by (simp add: science_art_def mk_question_def)
  have h6: "length [1, 2, 3 :: int] = length (store_questions science_art)"
    by (simp add: science_art_def)
  from quiz_exhausted [OF h1 h2 h3 h4 h5 h6, of "\<lambda>_. 2"] h1 h2 h3 h4 h5 h6
  show ?thesis by simp
qed

text \<open>
  Claim C4 (quiz empty-pool safety). The claim asks for the game-over result when the
  candidate set is empty. Category 4 of the sample store holds no question: the first
  \<^verbatim>\<open>random.choice\<close> raises \<^verbatim>\<open>IndexError\<close> on the empty list, whatever the draw, and
  the client gets the internal server error.
\<close>

theorem quiz_empty_pool_crashes:
  "quiz_candidates entertainment (JInt 4) = Inr []
   \<and> get_quiz_question rnd entertainment (quiz_request (JInt 4) []) = Some (Inl IndexError)
   \<and> app rnd entertainment POST Url_quizzes (quiz_request (JInt 4) [])
       = Some (entertainment, Error 500)"
proof -
  have c: "quiz_candidates entertainment (JInt 4) = Inr []"
    by (simp add: quiz_candidates_def filter_by_category_def category_column_def
        entertainment_def mk_question_def)
  have g: "get_quiz_question rnd entertainment (quiz_request (JInt 4) [])
             = Some (Inl IndexError)"
    by (simp add: get_quiz_question_def quiz_request_def c random_choice_def)
  show ?thesis using c g by (simp add: app_def respond_def)
qed

subsection \<open>Deletion and creation\<close>

lemma query_get_Some:
  "query_get st i = Some q \<Longrightarrow> q_id q = i \<and> q \<in> set (store_questions st)"
  by (auto simp: query_get_def find_Some_iff)

lemma query_get_deleted: "query_get (question_delete st q) (q_id q) = None"
  by (simp add: query_get_def question_delete_def find_None_iff)

text \<open>
  Claim C5 (delete not-found). The claim asks for not-found (404) when no question has
  the identifier. The sample store has no question 1000: \<^verbatim>\<open>abort(404)\<close> is raised inside
  the \<^verbatim>\<open>try\<close> block, the bare \<^verbatim>\<open>except\<close> catches it, and the request is answered 422.
\<close>

theorem delete_unknown_id_is_422:
  "query_get entertainment 1000 = None
   \<and> delete_question entertainment 1000 = (entertainment, Inl (HTTPException 422))
   \<and> app rnd entertainment DELETE (Url_questions_id 1000) request
       = Some (entertainment, Error 422)"
proof -
  have q: "query_get entertainment 1000 = None"
    by (simp add: query_get_def entertainment_def mk_question_def)
  have d: "delete_question entertainment 1000 = (entertainment, Inl (HTTPException 422))"
    by (simp add: delete_question_def delete_question_try_def q)
  show ?thesis using q d by (simp add: app_def respond_def)
qed

lemma question_insert_exn: "question_insert st a b c d = Inl e \<Longrightarrow> e = DataError"
  by (auto simp: question_insert_def Let_def split: option.splits)

text \<open>
  Claim C6 (create validation). The claim asks for 422 when a required field is absent or
  invalid. The handler has no \<^verbatim>\<open>abort(422)\<close> and no \<^verbatim>\<open>try\<close>: it never signals 422, and
  a request without the \<^verbatim>\<open>answer\<close> key raises \<^verbatim>\<open>KeyError\<close>, which the client sees as
  the internal server error.
\<close>

theorem create_never_422:
  "snd (create_question st request) \<noteq> Inl (HTTPException 422)
   \<and> create_question entertainment create_request_no_answer = (entertainment, Inl KeyError)
   \<and> app rnd entertainment POST Url_questions create_request_no_answer
       = Some (entertainment, Error 500)"
proof -
  have a: "snd (create_question st request) \<noteq> Inl (HTTPException 422)"
    by (auto simp: create_question_def Let_def
        split: option.split sum.split prod.split dest: question_insert_exn)
  have b: "create_question entertainment create_request_no_answer
             = (entertainment, Inl KeyError)"
    by (simp add: create_question_def create_request_no_answer_def empty_request_def)
  show ?thesis using a b by (simp add: app_def respond_def)
qed

text \<open>
  Claim C10 (GET deletes). The route \<^verbatim>\<open>/questions/<int:id>\<close> lists the methods GET and
  DELETE, so a GET request is answered exactly as a DELETE request is: when a question has
  the identifier it is removed from the store and the identifier is reported deleted, and
  otherwise the store is unchanged and the request is answered 422.
\<close>

theorem get_runs_delete:
  "app rnd st GET (Url_questions_id i) request = app rnd st DELETE (Url_questions_id i) request
   \<and> (case query_get st (int i) of
        Some q \<Rightarrow>
          app rnd st GET (Url_questions_id i) request
            = Some (question_delete st q, Deleted (int i))
          \<and> query_get (question_delete st q) (int i) = None
      | None \<Rightarrow> app rnd st GET (Url_questions_id i) request = Some (st, Error 422))"
proof (cases "query_get st (int i)")
  case None
  then show ?thesis
    by (simp add: app_def delete_question_def delete_question_try_def respond_def)
next
  case (Some q)
  from query_get_Some [OF Some] query_get_deleted [of st q]
  have "query_get (question_delete st q) (int i) = None" by simp
  with Some show ?thesis
    by (simp add: app_def delete_question_def delete_question_try_def respond_def)
qed

text \<open>A GET request for question 3 of the sample store leaves the questions 2 and 6.\<close>

theorem get_runs_delete_witness:
  "app (\<lambda>_. 0) entertainment GET (Url_questions_id 3) empty_request
     = Some (entertainment\<lparr>store_questions :=
               [mk_question 2 ''Who directed the film?'' 5,
                mk_question 6 ''Which actor played the lead?'' 5]\<rparr>, Deleted 3)
   \<and> app (\<lambda>_. 0) entertainment DELETE (Url_questions_id 3) empty_request
     = Some (entertainment\<lparr>store_questions :=
               [mk_question 2 ''Who directed the film?'' 5,
                mk_question 6 ''Which actor played the lead?'' 5]\<rparr>, Deleted 3)"
proof -
  have q: "query_get entertainment (int 3)
             = Some (mk_question 3 ''What is the title of the film?'' 5)"
    by (simp add: query_get_def entertainment_def mk_question_def)
  have d: "question_delete entertainment (mk_question 3 ''What is the title of the film?'' 5)
             = entertainment\<lparr>store_questions :=
               [mk_question 2 ''Who directed the film?'' 5,
                mk_question 6 ''Which actor played the lead?'' 5]\<rparr>"
    by (simp add: question_delete_def entertainment_def mk_question_def)
  note g = get_runs_delete [of "\<lambda>_. 0" entertainment 3 empty_request]
  from g [THEN conjunct2] q d
  have r: "app (\<lambda>_. 0) entertainment GET (Url_questions_id 3) empty_request
     = Some (entertainment\<lparr>store_questions :=
               [mk_question 2 ''Who directed the film?'' 5,
                mk_question 6 ''Which actor played the lead?'' 5]\<rparr>, Deleted 3)"
    by simp
  from g [THEN conjunct1] r show ?thesis by (simp only: simp_thms)
qed

subsection \<open>Search\<close>








text \<open>
  Lowering leaves the ASCII characters that are not letters, so for an ASCII term the
  condition on the lowered term is a condition on the term itself.
\<close>

lemma like_plain_lower_ascii:
  assumes "\<forall>c\<in>set t. c < 128"
  shows "like_plain (lower st t) = like_plain t"
proof -
  have "like_special (lower_char st c) = like_special c" if "c < 128" for c
    using that by (auto simp: lower_char_def like_special_def)
  with assms show ?thesis
    by (simp add: like_plain_def lower_def list_all_iff)
qed




subsection \<open>Questions of a category\<close>

text \<open>\<^verbatim>\<open>str(n)\<close> writes \<open>n\<close> in decimal digits, which the store reads back as \<open>n\<close>.\<close>

lemma digits_value_append:
  "digits_value (xs @ ys) acc =
     (case digits_value xs acc of None \<Rightarrow> None | Some a \<Rightarrow> digits_value ys a)"
  by (induction xs arbitrary: acc) (auto split: option.splits)

lemma digits_value_py_str: "digits_value (py_str n) 0 = Some n"
proof (induction n rule: py_str.induct)
  case (1 n)
  show ?case
  proof (cases "n < 10")
    case True
    then show ?thesis
      by (subst py_str.simps) (simp add: digit_value_def)
  next
    case False
    have d: "digit_value (48 + n mod 10) = Some (n mod 10)"
      by (simp add: digit_value_def)
    from False "1.IH" show ?thesis
      by (subst py_str.simps) (simp add: digits_value_append d)
  qed
qed

lemma py_str_digits: "c \<in> set (py_str n) \<Longrightarrow> 48 \<le> c \<and> c \<le> 57"
proof (induction n arbitrary: c rule: py_str.induct)
  case (1 n)
  show ?case
  proof (cases "n < 10")
    case True
    with "1.prems" show ?thesis
      by (subst (asm) py_str.simps) simp
  next
    case False
    with "1.prems" have "c \<in> set (py_str (n div 10)) \<or> c = 48 + n mod 10"
      by (subst (asm) py_str.simps) auto
    with False "1.IH" show ?thesis by auto
  qed
qed

lemma py_str_not_Nil: "py_str n \<noteq> []"
  by (subst py_str.simps) simp

lemma category_column_py_str: "category_column (JStr (py_str n)) = Some (int n)"
proof (cases "py_str n")
  case Nil
  with py_str_not_Nil show ?thesis by simp
next
  case (Cons c cs)
  then have "c \<in> set (py_str n)" by simp
  from py_str_digits [OF this] have "c \<noteq> 45" by simp
  with Cons digits_value_py_str [of n] show ?thesis
    by (simp add: category_column_def)
qed

lemma filter_by_category_py_str:
  "filter_by_category st (JStr (py_str c))
     = Inr (filter (\<lambda>q. q_category q = int c) (store_questions st))"
  by (simp add: filter_by_category_def category_column_py_str)

text \<open>
  Claim C9 (category scoping). When the handler succeeds, a category with the identifier
  exists, the reported total is the number of questions of the store whose category
  reference is the identifier, and every returned question is one of them. When no
  category has the identifier, the handler signals not-found. When one category has it,
  the handler returns the requested page of the questions of that category.
\<close>

theorem category_scoping:
  "(show_questions_by_category st request c = Inr (CategoryQuestions qs n t)
      \<longrightarrow> (\<exists>cat \<in> set (store_categories st). c_id cat = int c \<and> c_type cat = t)
        \<and> n = length (filter (\<lambda>q. q_category q = int c) (store_questions st))
        \<and> (\<forall>q \<in> set qs. q \<in> set (store_questions st) \<and> q_category q = int c))
   \<and> ((\<forall>cat \<in> set (store_categories st). c_id cat \<noteq> int c)
      \<longrightarrow> show_questions_by_category st request c = Inl (HTTPException 404))
   \<and> (filter (\<lambda>x. c_id x = int c) (store_categories st) = [cat]
      \<longrightarrow> show_questions_by_category st request c
            = Inr (CategoryQuestions
                     (paginate request
                        (filter (\<lambda>q. q_category q = int c) (store_questions st)))
                     (length (filter (\<lambda>q. q_category q = int c) (store_questions st)))
                     (c_type cat)))"
proof (intro conjI impI)
  assume a: "show_questions_by_category st request c = Inr (CategoryQuestions qs n t)"
  then obtain cat where o: "category_one_or_none st (int c) = Inr (Some cat)"
    and t: "c_type cat = t"
    and qs: "qs = paginate request (filter (\<lambda>q. q_category q = int c) (store_questions st))"
    and n: "n = length (filter (\<lambda>q. q_category q = int c) (store_questions st))"
    by (auto simp: show_questions_by_category_def filter_by_category_py_str Let_def
        split: sum.splits option.splits)
  from o have "filter (\<lambda>x. c_id x = int c) (store_categories st) = [cat]"
    by (auto simp: category_one_or_none_def split: list.splits)
  then have "cat \<in> set (filter (\<lambda>x. c_id x = int c) (store_categories st))" by simp
  then have "cat \<in> set (store_categories st)" "c_id cat = int c" by simp_all
  with t show "\<exists>cat \<in> set (store_categories st). c_id cat = int c \<and> c_type cat = t"
    by blast
  from n show "n = length (filter (\<lambda>q. q_category q = int c) (store_questions st))" .
  show "\<forall>q \<in> set qs. q \<in> set (store_questions st) \<and> q_category q = int c"
    using set_paginate [of request "filter (\<lambda>q. q_category q = int c) (store_questions st)"]
    by (auto simp: qs)
next
  assume "\<forall>cat \<in> set (store_categories st). c_id cat \<noteq> int c"
  then have "filter (\<lambda>x. c_id x = int c) (store_categories st) = []"
    by (simp add: filter_empty_conv)
  then show "show_questions_by_category st request c = Inl (HTTPException 404)"
    by (simp add: show_questions_by_category_def category_one_or_none_def)
next
  assume "filter (\<lambda>x. c_id x = int c) (store_categories st) = [cat]"
  then show "show_questions_by_category st request c
            = Inr (CategoryQuestions
                     (paginate request
                        (filter (\<lambda>q. q_category q = int c) (store_questions st)))
                     (length (filter (\<lambda>q. q_category q = int c) (store_questions st)))
                     (c_type cat))"
    by (simp add: show_questions_by_category_def category_one_or_none_def
        filter_by_category_py_str Let_def)
qed

text \<open>
  On the store of \<^verbatim>\<open>play_quiz_test\<close>, whose questions refer to category 5 by the
  number, category 5 yields the questions 2, 3 and 6. On the store of the spec's
  scenario, with the categories 1 (Science) and 2 (Art), category 3 is not found.
\<close>

theorem category_scoping_witness:
  "show_questions_by_category entertainment empty_request 5
     = Inr (CategoryQuestions
              [mk_question 2 ''Who directed the film?'' 5,
               mk_question 3 ''What is the title of the film?'' 5,
               mk_question 6 ''Which actor played the lead?'' 5] 3 (py ''Entertainment''))
   \<and> list_all (\<lambda>q. q \<in> set (store_questions entertainment) \<and> q_category q = int 5)
       [mk_question 2 ''Who directed the film?'' 5,
        mk_question 3 ''What is the title of the film?'' 5,
        mk_question 6 ''Which actor played the lead?'' 5]
   \<and> list_all (\<lambda>cat. c_id cat \<noteq> 3) (store_categories science_art)
   \<and> show_questions_by_category science_art empty_request 3 = Inl (HTTPException 404)"
proof -
  have f: "filter (\<lambda>x. c_id x = int 5) (store_categories entertainment)
             = [\<lparr>c_id = 5, c_type = py ''Entertainment''\<rparr>]"
    by (simp add: entertainment_def)
  have m: "filter (\<lambda>q. q_category q = int 5) (store_questions entertainment)
             = [mk_question 2 ''Who directed the film?'' 5,
                mk_question 3 ''What is the title of the film?'' 5,
                mk_question 6 ''Which actor played the lead?'' 5]"
    by (simp add: entertainment_def mk_question_def)
  have p: "paginate empty_request
             [mk_question 2 ''Who directed the film?'' 5,
              mk_question 3 ''What is the title of the film?'' 5,
              mk_question 6 ''Which actor played the lead?'' 5]
           = [mk_question 2 ''Who directed the film?'' 5,
              mk_question 3 ''What is the title of the film?'' 5,
              mk_question 6 ''Which actor played the lead?'' 5]"
    by (simp add: paginate_def args_get_page_def empty_request_def QUESTIONS_PER_PAGE_def
        py_slice_def format_def)
  note five = category_scoping [of entertainment empty_request 5
      "[mk_question 2 ''Who directed the film?'' 5,
        mk_question 3 ''What is the title of the film?'' 5,
        mk_question 6 ''Which actor played the lead?'' 5]" 3 "py ''Entertainment''"
      "\<lparr>c_id = 5, c_type = py ''Entertainment''\<rparr>"]
  from five [THEN conjunct2, THEN conjunct2] f m p
  have r: "show_questions_by_category entertainment empty_request 5
     = Inr (CategoryQuestions
              [mk_question 2 ''Who directed the film?'' 5,
               mk_question 3 ''What is the title of the film?'' 5,
               mk_question 6 ''Which actor played the lead?'' 5] 3 (py ''Entertainment''))"
    by simp
  from five [THEN conjunct1] r
  have s: "\<forall>q \<in> set [mk_question 2 ''Who directed the film?'' 5,
               mk_question 3 ''What is the title of the film?'' 5,
               mk_question 6 ''Which actor played the lead?'' 5].
             q \<in> set (store_questions entertainment) \<and> q_category q = int 5"
    by blast
  have n: "\<forall>cat \<in> set (store_categories science_art). c_id cat \<noteq> int 3"
    by (simp add: science_art_def)
  from category_scoping [of science_art empty_request 3, THEN conjunct2, THEN conjunct1] n
  have e: "show_questions_by_category science_art empty_request 3 = Inl (HTTPException 404)"
    by blast
  from r s n e show ?thesis by (simp add: list_all_iff)
qed

end
